theory Spec2Isabelle
  imports Complex_Main
begin

section \<open>Values of the rendering library that the script handles\<close>

text \<open>
  The script \<^verbatim>\<open>src/script.js\<close> is a sequence of calls into a rendering library. The
  objects it reads and writes are modelled by the fields the script touches. A JavaScript
  number is a real, one of the two infinities or NaN: rounding and the sign of zero are
  left out. The sizes of the window are reals; their quotient is \<open>js_div\<close>. Positions,
  scales and the bounding box are numbers in full, since the box of an object without
  geometry is infinite.
\<close>

datatype jsnum = Num real | PosInfinity | NegInfinity | NaN

definition js_div :: "real \<Rightarrow> real \<Rightarrow> jsnum" where
  "js_div a b =
     (if b \<noteq> 0 then Num (a / b)
      else if 0 < a then PosInfinity
      else if a < 0 then NegInfinity
      else NaN)"

fun js_neg :: "jsnum \<Rightarrow> jsnum" where
  "js_neg (Num a) = Num (- a)"
| "js_neg PosInfinity = NegInfinity"
| "js_neg NegInfinity = PosInfinity"
| "js_neg NaN = NaN"

fun js_add :: "jsnum \<Rightarrow> jsnum \<Rightarrow> jsnum" where
  "js_add NaN _ = NaN"
| "js_add _ NaN = NaN"
| "js_add PosInfinity NegInfinity = NaN"
| "js_add NegInfinity PosInfinity = NaN"
| "js_add PosInfinity _ = PosInfinity"
| "js_add _ PosInfinity = PosInfinity"
| "js_add NegInfinity _ = NegInfinity"
| "js_add _ NegInfinity = NegInfinity"
| "js_add (Num a) (Num b) = Num (a + b)"

definition js_sub :: "jsnum \<Rightarrow> jsnum \<Rightarrow> jsnum" where
  "js_sub a b = js_add a (js_neg b)"

text \<open>The product with a real factor.\<close>

fun js_scale :: "jsnum \<Rightarrow> real \<Rightarrow> jsnum" where
  "js_scale (Num a) b = Num (a * b)"
| "js_scale NaN b = NaN"
| "js_scale PosInfinity b =
     (if b = 0 then NaN else if 0 < b then PosInfinity else NegInfinity)"
| "js_scale NegInfinity b =
     (if b = 0 then NaN else if 0 < b then NegInfinity else PosInfinity)"

text \<open>The quotient by a real divisor.\<close>

fun js_quot :: "jsnum \<Rightarrow> real \<Rightarrow> jsnum" where
  "js_quot (Num a) b = js_div a b"
| "js_quot NaN b = NaN"
| "js_quot PosInfinity b = (if b < 0 then NegInfinity else PosInfinity)"
| "js_quot NegInfinity b = (if b < 0 then PosInfinity else NegInfinity)"

text \<open>\<^verbatim>\<open>Math.min\<close> and \<^verbatim>\<open>Math.max\<close>: NaN when an argument is NaN.\<close>

fun js_min :: "jsnum \<Rightarrow> jsnum \<Rightarrow> jsnum" where
  "js_min NaN _ = NaN"
| "js_min _ NaN = NaN"
| "js_min NegInfinity _ = NegInfinity"
| "js_min _ NegInfinity = NegInfinity"
| "js_min PosInfinity b = b"
| "js_min a PosInfinity = a"
| "js_min (Num a) (Num b) = Num (min a b)"

fun js_max :: "jsnum \<Rightarrow> jsnum \<Rightarrow> jsnum" where
  "js_max NaN _ = NaN"
| "js_max _ NaN = NaN"
| "js_max PosInfinity _ = PosInfinity"
| "js_max _ PosInfinity = PosInfinity"
| "js_max NegInfinity b = b"
| "js_max a NegInfinity = a"
| "js_max (Num a) (Num b) = Num (max a b)"

record vector3 =
  vec_x :: jsnum
  vec_y :: jsnum
  vec_z :: jsnum

datatype texture = CubeTexture "string list"

datatype tone_mapping =
  NoToneMapping | LinearToneMapping | ReinhardToneMapping | CineonToneMapping
  | ACESFilmicToneMapping

datatype encoding = LinearEncoding | sRGBEncoding

datatype shadow_map_type = BasicShadowMap | PCFShadowMap | PCFSoftShadowMap | VSMShadowMap

subsection \<open>Materials\<close>

datatype material_class =
  MeshStandardMaterial | MeshPhysicalMaterial | MeshBasicMaterial | MeshLambertMaterial
  | MeshPhongMaterial | LineBasicMaterial | PointsMaterial | ShaderMaterial

text \<open>\<^verbatim>\<open>m instanceof THREE.MeshStandardMaterial\<close>: the class itself and its subclass.\<close>

fun isStandardMaterial :: "material_class \<Rightarrow> bool" where
  "isStandardMaterial MeshStandardMaterial = True"
| "isStandardMaterial MeshPhysicalMaterial = True"
| "isStandardMaterial _ = False"

record material_rec =
  mat_class :: material_class
  envMap :: "texture option"
  envMapIntensity :: real
  mat_name :: string
  roughness :: real
  metalness :: real

text \<open>
  Materials are objects shared by reference: several nodes may hold the same material.
  They live in a heap indexed by addresses, and a node holds an address.
\<close>

type_synonym material_heap = "nat \<rightharpoonup> material_rec"

datatype material_ref = NoMaterial | MaterialRef nat | MaterialArray "nat list"

subsection \<open>Scene-graph nodes\<close>

datatype object_class =
  Object3D_class | Group | Scene | Mesh | SkinnedMesh | InstancedMesh | Bone
  | PerspectiveCamera | DirectionalLight | Line | Points

text \<open>\<^verbatim>\<open>child instanceof THREE.Mesh\<close>: the class itself and its subclasses.\<close>

fun isMesh :: "object_class \<Rightarrow> bool" where
  "isMesh Mesh = True"
| "isMesh SkinnedMesh = True"
| "isMesh InstancedMesh = True"
| "isMesh _ = False"

text \<open>
  \<open>geometry\<close> is the vertical extent of the geometry below the node, in the node's own
  frame: its lowest and its highest coordinate, or nothing when there is no geometry.
\<close>

record object_fields =
  oid :: nat
  cls :: object_class
  position :: vector3
  scale :: vector3
  castShadow :: bool
  receiveShadow :: bool
  material :: material_ref
  geometry :: "(real \<times> real) option"

datatype 'a graph_node = Object3D (node_fields: 'a) (node_children: "'a graph_node list")

type_synonym object3d = "object_fields graph_node"

text \<open>
  \<^verbatim>\<open>Object3D.traverse(callback)\<close>: the callback runs on the node, then the traversal
  descends into the children in order. The callback mutates the node it is given and the
  state \<open>'s\<close> it shares with the rest of the program.
\<close>

fun traverse :: "('a \<Rightarrow> 's \<Rightarrow> 'a \<times> 's) \<Rightarrow> 'a graph_node \<Rightarrow> 's \<Rightarrow> 'a graph_node \<times> 's"
and traverse_children ::
  "('a \<Rightarrow> 's \<Rightarrow> 'a \<times> 's) \<Rightarrow> 'a graph_node list \<Rightarrow> 's \<Rightarrow> 'a graph_node list \<times> 's"
where
  "traverse cb (Object3D f cs) s =
     (case cb f s of (f', s1) \<Rightarrow>
        (case traverse_children cb cs s1 of (cs', s2) \<Rightarrow> (Object3D f' cs', s2)))"
| "traverse_children cb [] s = ([], s)"
| "traverse_children cb (c # cs) s =
     (case traverse cb c s of (c', s1) \<Rightarrow>
        (case traverse_children cb cs s1 of (cs', s2) \<Rightarrow> (c' # cs', s2)))"

text \<open>\<^verbatim>\<open>Object3D.add(object)\<close>: the object becomes the last child.\<close>

fun add_child :: "'a graph_node \<Rightarrow> 'a graph_node \<Rightarrow> 'a graph_node" where
  "add_child (Object3D f cs) c = Object3D f (cs @ [c])"

subsection \<open>Bounding box\<close>

record box3 =
  box_min_y :: jsnum
  box_max_y :: jsnum

text \<open>
  The vertical coordinate, in world space, of a point of a root object given in the object's
  own frame: the object's translation and scale applied (the script never rotates).
\<close>

definition world_y :: "object_fields \<Rightarrow> real \<Rightarrow> jsnum" where
  "world_y f y = js_add (vec_y (position f)) (js_scale (vec_y (scale f)) y)"

text \<open>
  \<^verbatim>\<open>new THREE.Box3()\<close> is the empty box, with its minimum at plus infinity and its
  maximum at minus infinity; a point expands it.
\<close>

definition Box3_empty :: box3 where
  "Box3_empty = \<lparr>box_min_y = PosInfinity, box_max_y = NegInfinity\<rparr>"

definition expandByPoint :: "box3 \<Rightarrow> jsnum \<Rightarrow> box3" where
  "expandByPoint b y = \<lparr>box_min_y = js_min (box_min_y b) y, box_max_y = js_max (box_max_y b) y\<rparr>"

text \<open>
  \<^verbatim>\<open>new THREE.Box3().setFromObject(o)\<close>: the world-space axis-aligned box of the geometry
  below \<open>o\<close>; only its vertical extent is read by the script. The box of an object
  without geometry stays empty.
\<close>

fun Box3_setFromObject :: "object3d \<Rightarrow> box3" where
  "Box3_setFromObject (Object3D f cs) =
     (case geometry f of
        None \<Rightarrow> Box3_empty
      | Some (lo, hi) \<Rightarrow>
          expandByPoint (expandByPoint Box3_empty (world_y f lo)) (world_y f hi))"

subsection \<open>Animation\<close>

datatype clip = AnimationClip string

record animation_mixer =
  mixer_root :: nat
  mixer_actions :: "clip list"
  mixer_time :: real

text \<open>\<^verbatim>\<open>new THREE.AnimationMixer(obj)\<close>, bound to the object with address \<open>oid\<close>.\<close>

definition AnimationMixer_new :: "object3d \<Rightarrow> animation_mixer" where
  "AnimationMixer_new obj = \<lparr>mixer_root = oid (node_fields obj), mixer_actions = [], mixer_time = 0\<rparr>"

text \<open>\<^verbatim>\<open>mixer.clipAction(clip).play()\<close>: one more playing action.\<close>

definition clipAction_play :: "animation_mixer \<Rightarrow> clip \<Rightarrow> animation_mixer" where
  "clipAction_play m c = m\<lparr>mixer_actions := mixer_actions m @ [c]\<rparr>"

text \<open>\<^verbatim>\<open>mixer.update(delta)\<close>: the mixer's time advances.\<close>

definition AnimationMixer_update :: "animation_mixer \<Rightarrow> real \<Rightarrow> animation_mixer" where
  "AnimationMixer_update m delta = m\<lparr>mixer_time := mixer_time m + delta\<rparr>"

section \<open>The program state\<close>

record viewport =
  width :: real
  height :: real

text \<open>The host window, as the script reads it.\<close>

record window =
  innerWidth :: real
  innerHeight :: real
  devicePixelRatio :: real

record camera_rec =
  fov :: real
  aspect :: jsnum
  near :: real
  far :: real

text \<open>
  \<open>r_width\<close> and \<open>r_height\<close> are the size the renderer was given, \<open>canvas_width\<close> and
  \<open>canvas_height\<close> the size of its drawing buffer, in pixels.
\<close>

record renderer_rec =
  antialias :: bool
  r_width :: real
  r_height :: real
  pixelRatio :: real
  canvas_width :: int
  canvas_height :: int
  outputEncoding :: encoding
  physicallyCorrectLights :: bool
  shadowMap_enabled :: bool
  shadowMap_type :: shadow_map_type
  toneMapping :: tone_mapping
  toneMappingExposure :: real

text \<open>
  \<^verbatim>\<open>renderer.setSize(w, h)\<close> keeps the size and resizes the drawing buffer to the size
  times the pixel ratio, rounded down; \<^verbatim>\<open>renderer.setPixelRatio(v)\<close> keeps the ratio and
  sets the kept size again.
\<close>

definition setSize :: "real \<Rightarrow> real \<Rightarrow> renderer_rec \<Rightarrow> renderer_rec" where
  "setSize w h r =
     r\<lparr>r_width := w, r_height := h,
       canvas_width := floor (w * pixelRatio r),
       canvas_height := floor (h * pixelRatio r)\<rparr>"

definition setPixelRatio :: "real \<Rightarrow> renderer_rec \<Rightarrow> renderer_rec" where
  "setPixelRatio v r = setSize (r_width r) (r_height r) (r\<lparr>pixelRatio := v\<rparr>)"

record debug_params =
  dbg_toneMapping :: tone_mapping
  dbg_toneMappingExposure :: real
  dbg_envMapIntensity :: real

text \<open>
  The calls into the library whose effect lies outside the program state (drawing,
  input handling, scheduling, the walk of the scene graph) are journalled in the order the
  script makes them.
\<close>

datatype lib_call =
  SceneTraverse | UpdateProjectionMatrix | MixerUpdate real | ControlsUpdate | Render
  | RequestAnimationFrame

record app =
  scene :: object3d
  scene_background :: "texture option"
  scene_environment :: "texture option"
  materials :: material_heap
  mixer :: "animation_mixer option"
  sizes :: viewport
  camera :: camera_rec
  controls_enableDamping :: bool
  renderer :: renderer_rec
  debugObject :: debug_params
  calls :: "lib_call list"

definition environmentMap :: texture where
  "environmentMap = CubeTexture
     [''/textures/environmentMaps/1/px.jpg'', ''/textures/environmentMaps/1/nx.jpg'',
      ''/textures/environmentMaps/1/py.jpg'', ''/textures/environmentMaps/1/ny.jpg'',
      ''/textures/environmentMaps/1/pz.jpg'', ''/textures/environmentMaps/1/nz.jpg'']"

section \<open>Update all materials\<close>

text \<open>
  The callback of \<^verbatim>\<open>updateAllMaterials\<close> on one node. A node whose \<^verbatim>\<open>material\<close> is
  absent or an array of materials is no instance of the standard material.
\<close>

definition material_callback ::
  "texture \<Rightarrow> real \<Rightarrow> object_fields \<Rightarrow> material_heap \<Rightarrow> object_fields \<times> material_heap" where
  "material_callback env k child heap =
     (if isMesh (cls child) then
        (case material child of
           MaterialRef i \<Rightarrow>
             (case heap i of
                Some m \<Rightarrow>
                  if isStandardMaterial (mat_class m)
                  then (child\<lparr>castShadow := True, receiveShadow := True\<rparr>,
                        heap(i \<mapsto> m\<lparr>envMap := Some env, envMapIntensity := k\<rparr>))
                  else (child, heap)
              | None \<Rightarrow> (child, heap))
         | _ \<Rightarrow> (child, heap))
      else (child, heap))"

definition updateAllMaterials :: "app \<Rightarrow> app" where
  "updateAllMaterials st =
     (case traverse (material_callback environmentMap (dbg_envMapIntensity (debugObject st)))
             (scene st) (materials st) of
        (sc, heap) \<Rightarrow> st\<lparr>scene := sc, materials := heap, calls := calls st @ [SceneTraverse]\<rparr>)"

section \<open>Model load\<close>

record gltf =
  gltf_scene :: object3d
  gltf_animations :: "clip list"
  gltf_materials :: material_heap

fun set_position_y :: "object3d \<Rightarrow> jsnum \<Rightarrow> object3d" where
  "set_position_y (Object3D f cs) v = Object3D (f\<lparr>position := (position f)\<lparr>vec_y := v\<rparr>\<rparr>) cs"

fun scale_set :: "object3d \<Rightarrow> real \<Rightarrow> real \<Rightarrow> real \<Rightarrow> object3d" where
  "scale_set (Object3D f cs) a b c =
     Object3D (f\<lparr>scale := \<lparr>vec_x = Num a, vec_y = Num b, vec_z = Num c\<rparr>\<rparr>) cs"

text \<open>
  The success callback handed to \<^verbatim>\<open>gltfLoader.load\<close>. The materials the loader has
  allocated for the model are in the heap when the callback starts.
\<close>

definition onLoad :: "gltf \<Rightarrow> app \<Rightarrow> app" where
  "onLoad g st =
     (let fox = gltf_scene g;
          box = Box3_setFromObject fox;
          h = js_sub (box_max_y box) (box_min_y box);
          fox1 = set_position_y fox (js_quot (js_neg h) 2);
          fox2 = scale_set fox1 0.5 0.5 0.5;
          st1 = st\<lparr>scene := add_child (scene st) fox2,
                   materials := materials st ++ gltf_materials g\<rparr>;
          st2 = updateAllMaterials st1;
          m = foldl clipAction_play (AnimationMixer_new fox2) (gltf_animations g)
      in st2\<lparr>mixer := Some m\<rparr>)"

text \<open>
  \<^verbatim>\<open>loader.load(url, onLoad, onProgress, onError)\<close>: a request keeps the callbacks it was
  given. When the load settles the library calls \<^verbatim>\<open>onLoad\<close> with the model, or, on a
  failure, \<^verbatim>\<open>onError\<close> when one was given and its own console report when none was.
\<close>

record load_request =
  req_url :: string
  req_onLoad :: "(gltf \<Rightarrow> app \<Rightarrow> app) option"
  req_onProgress :: "(app \<Rightarrow> app) option"
  req_onError :: "(app \<Rightarrow> app) option"

datatype load_outcome = Loaded gltf | LoadFailed

definition loader_settle :: "load_request \<Rightarrow> load_outcome \<Rightarrow> app \<Rightarrow> app" where
  "loader_settle req outcome st =
     (case outcome of
        Loaded g \<Rightarrow> (case req_onLoad req of Some cb \<Rightarrow> cb g st | None \<Rightarrow> st)
      | LoadFailed \<Rightarrow> (case req_onError req of Some cb \<Rightarrow> cb st | None \<Rightarrow> st))"

text \<open>The one request of the script: a path and a success callback, nothing else.\<close>

definition model_request :: load_request where
  "model_request =
     \<lparr>req_url = ''/models/Fox/glTF/Fox.gltf'', req_onLoad = Some onLoad,
      req_onProgress = None, req_onError = None\<rparr>"

section \<open>Sizes\<close>


section \<open>Startup\<close>

definition new_object :: "nat \<Rightarrow> object_class \<Rightarrow> object_fields" where
  "new_object i c =
     \<lparr>oid = i, cls = c,
      position = \<lparr>vec_x = Num 0, vec_y = Num 0, vec_z = Num 0\<rparr>,
      scale = \<lparr>vec_x = Num 1, vec_y = Num 1, vec_z = Num 1\<rparr>,
      castShadow = False, receiveShadow = False, material = NoMaterial,
      geometry = None\<rparr>"

definition camera_node :: object3d where
  "camera_node =
     Object3D ((new_object 1 PerspectiveCamera)
       \<lparr>position := \<lparr>vec_x = Num 4, vec_y = Num 1, vec_z = Num (- 4)\<rparr>\<rparr>) []"

definition directionalLight :: object3d where
  "directionalLight =
     Object3D ((new_object 2 DirectionalLight)
       \<lparr>position := \<lparr>vec_x = Num 0.25, vec_y = Num 3, vec_z = Num (- 2.25)\<rparr>,
        castShadow := True\<rparr>) []"

text \<open>
  The state the top-level statements of the script leave, up to the first call of
  \<^verbatim>\<open>tick\<close>. \<open>w\<close> is the window at that time and \<open>r0\<close> the renderer as the library's
  constructor returns it; the script then assigns the fields listed here and no other.
\<close>

definition startup :: "window \<Rightarrow> renderer_rec \<Rightarrow> app" where
  "startup w r0 =
     (let sz = \<lparr>width = innerWidth w, height = innerHeight w\<rparr>
      in \<lparr>scene = Object3D (new_object 0 Scene) [camera_node, directionalLight],
          scene_background = Some environmentMap,
          scene_environment = Some environmentMap,
          materials = Map.empty,
          mixer = None,
          sizes = sz,
          camera = \<lparr>fov = 75, aspect = js_div (width sz) (height sz), near = 0.1, far = 100\<rparr>,
          controls_enableDamping = True,
          renderer =
            (setPixelRatio (min (devicePixelRatio w) 2) (setSize (width sz) (height sz) r0))
            \<lparr>outputEncoding := sRGBEncoding,
             physicallyCorrectLights := True,
             shadowMap_enabled := True,
             shadowMap_type := PCFSoftShadowMap\<rparr>,
          debugObject =
            \<lparr>dbg_toneMapping = ACESFilmicToneMapping, dbg_toneMappingExposure = 3,
             dbg_envMapIntensity = 2.5\<rparr>,
          calls = []\<rparr>)"

text \<open>
  \<^verbatim>\<open>new THREE.WebGLRenderer({canvas, antialias})\<close> with the library's defaults, for a
  canvas of the given size.
\<close>

definition WebGLRenderer_new :: "bool \<Rightarrow> real \<Rightarrow> real \<Rightarrow> renderer_rec" where
  "WebGLRenderer_new aa cw ch =
     \<lparr>antialias = aa, r_width = cw, r_height = ch, pixelRatio = 1,
      canvas_width = floor cw, canvas_height = floor ch,
      outputEncoding = LinearEncoding, physicallyCorrectLights = False,
      shadowMap_enabled = False, shadowMap_type = PCFShadowMap,
      toneMapping = NoToneMapping, toneMappingExposure = 1\<rparr>"

section \<open>Debug panel\<close>

text \<open>The \<^verbatim>\<open>onChange\<close> handlers the script registers.\<close>

definition toneMapping_onChange :: "tone_mapping \<Rightarrow> app \<Rightarrow> app" where
  "toneMapping_onChange v st =
     updateAllMaterials (st\<lparr>renderer := (renderer st)\<lparr>toneMapping := v\<rparr>\<rparr>)"

definition toneMappingExposure_onChange :: "real \<Rightarrow> app \<Rightarrow> app" where
  "toneMappingExposure_onChange v st =
     updateAllMaterials (st\<lparr>renderer := (renderer st)\<lparr>toneMappingExposure := v\<rparr>\<rparr>)"

definition envMapIntensity_onChange :: "app \<Rightarrow> app" where
  "envMapIntensity_onChange st = updateAllMaterials st"

text \<open>The entries of the tone-mapping dropdown, label and value.\<close>

definition toneMapping_options :: "(string \<times> tone_mapping) list" where
  "toneMapping_options =
     [(''No Tone Mapping'', NoToneMapping),
      (''Linear Tone Mapping'', LinearToneMapping),
      (''Reinhard Tone Mapping'', ReinhardToneMapping),
      (''Cineon Tone Mapping'', CineonToneMapping),
      (''ACES Filmic Tone Mapping'', ACESFilmicToneMapping)]"

text \<open>
  A controller of the panel writes the chosen value to the bound property of
  \<^verbatim>\<open>debugObject\<close>, then calls the registered handler once. A label that is not an entry
  of the dropdown cannot be selected.
\<close>

definition select_toneMapping :: "string \<Rightarrow> app \<Rightarrow> app" where
  "select_toneMapping label st =
     (case map_of toneMapping_options label of
        None \<Rightarrow> st
      | Some v \<Rightarrow>
          toneMapping_onChange v (st\<lparr>debugObject := (debugObject st)\<lparr>dbg_toneMapping := v\<rparr>\<rparr>))"

definition set_toneMappingExposure :: "real \<Rightarrow> app \<Rightarrow> app" where
  "set_toneMappingExposure v st =
     toneMappingExposure_onChange v
       (st\<lparr>debugObject := (debugObject st)\<lparr>dbg_toneMappingExposure := v\<rparr>\<rparr>)"

definition set_envMapIntensity :: "real \<Rightarrow> app \<Rightarrow> app" where
  "set_envMapIntensity v st =
     envMapIntensity_onChange (st\<lparr>debugObject := (debugObject st)\<lparr>dbg_envMapIntensity := v\<rparr>\<rparr>)"

section \<open>Animate\<close>

datatype js_error = TypeError

text \<open>
  A method call on a variable that holds \<^verbatim>\<open>undefined\<close> throws; \<^verbatim>\<open>if (mixer)\<close> tests
  that the variable holds an object.
\<close>

definition call_mixer_update :: "animation_mixer option \<Rightarrow> real \<Rightarrow> js_error + animation_mixer" where
  "call_mixer_update mo delta =
     (case mo of None \<Rightarrow> Inl TypeError | Some m \<Rightarrow> Inr (AnimationMixer_update m delta))"

definition truthy :: "'a option \<Rightarrow> bool" where
  "truthy mo = (mo \<noteq> None)"

text \<open>One run of \<^verbatim>\<open>tick\<close>; \<open>delta\<close> is what \<^verbatim>\<open>clock.getDelta()\<close> returns.\<close>

definition tick :: "real \<Rightarrow> app \<Rightarrow> js_error + app" where
  "tick delta st =
     (case (if truthy (mixer st)
            then (case call_mixer_update (mixer st) delta of
                    Inl e \<Rightarrow> Inl e
                  | Inr m \<Rightarrow> Inr (st\<lparr>mixer := Some m, calls := calls st @ [MixerUpdate delta]\<rparr>))
            else Inr st) of
        Inl e \<Rightarrow> Inl e
      | Inr st1 \<Rightarrow> Inr (st1\<lparr>calls := calls st1 @ [ControlsUpdate, Render, RequestAnimationFrame]\<rparr>))"

text \<open>The frames the host grants, one \<open>delta\<close> each: every run of \<^verbatim>\<open>tick\<close> requests the next.\<close>

fun run_frames :: "real list \<Rightarrow> app \<Rightarrow> js_error + app" where
  "run_frames [] st = Inr st"
| "run_frames (d # ds) st =
     (case tick d st of Inl e \<Rightarrow> Inl e | Inr st1 \<Rightarrow> run_frames ds st1)"

text \<open>The script from its first statement to the end of its own call of \<^verbatim>\<open>tick\<close>.\<close>

definition main :: "window \<Rightarrow> renderer_rec \<Rightarrow> real \<Rightarrow> js_error + app" where
  "main w r0 delta = tick delta (startup w r0)"

section \<open>What one pass of the Material Updater touches\<close>

text \<open>
  The nodes the callback acts on, the heap addresses of their materials, and the two
  changes it makes, written without the traversal.
\<close>

definition is_target :: "material_heap \<Rightarrow> object_fields \<Rightarrow> bool" where
  "is_target heap child =
     (isMesh (cls child) \<and>
      (case material child of
         MaterialRef i \<Rightarrow>
           (case heap i of Some m \<Rightarrow> isStandardMaterial (mat_class m) | None \<Rightarrow> False)
       | _ \<Rightarrow> False))"

definition target_id :: "material_heap \<Rightarrow> object_fields \<Rightarrow> nat option" where
  "target_id heap child =
     (if is_target heap child
      then (case material child of MaterialRef i \<Rightarrow> Some i | _ \<Rightarrow> None)
      else None)"

definition mark_shadows :: "material_heap \<Rightarrow> object_fields \<Rightarrow> object_fields" where
  "mark_shadows heap child =
     (if is_target heap child then child\<lparr>castShadow := True, receiveShadow := True\<rparr> else child)"

definition targets :: "material_heap \<Rightarrow> object3d \<Rightarrow> nat set" where
  "targets heap t = (\<Union>f \<in> set_graph_node t. set_option (target_id heap f))"

definition retexture :: "texture \<Rightarrow> real \<Rightarrow> nat set \<Rightarrow> material_heap \<Rightarrow> material_heap" where
  "retexture env k T heap =
     (\<lambda>i. if i \<in> T then map_option (\<lambda>m. m\<lparr>envMap := Some env, envMapIntensity := k\<rparr>) (heap i)
          else heap i)"

section \<open>Reading and driving the state\<close>

text \<open>The model in the scene graph: the child of the scene that was added last.\<close>

definition placed_model :: "app \<Rightarrow> object3d" where
  "placed_model st = last (node_children (scene st))"


section \<open>Sample inputs\<close>

definition sample_window :: window where
  "sample_window = \<lparr>innerWidth = 1280, innerHeight = 720, devicePixelRatio = 3\<rparr>"

definition sample_app :: app where
  "sample_app = startup sample_window (WebGLRenderer_new True 300 150)"

definition fox_material :: material_rec where
  "fox_material =
     \<lparr>mat_class = MeshStandardMaterial, envMap = None, envMapIntensity = 1,
      mat_name = ''fox_material'', roughness = 0.58, metalness = 0\<rparr>"

definition line_material :: material_rec where
  "line_material =
     \<lparr>mat_class = LineBasicMaterial, envMap = None, envMapIntensity = 1,
      mat_name = ''line_material'', roughness = 1, metalness = 0\<rparr>"

text \<open>
  A model whose local origin is at its vertical centre (its geometry spans \<open>-1\<close> to \<open>1\<close>),
  with a skinned mesh, a bone and the given clips.
\<close>

definition fox_model :: "clip list \<Rightarrow> gltf" where
  "fox_model clips =
     \<lparr>gltf_scene =
        Object3D ((new_object 10 Group)\<lparr>geometry := Some (- 1, 1)\<rparr>)
          [Object3D ((new_object 11 SkinnedMesh)\<lparr>material := MaterialRef 0\<rparr>) [],
           Object3D (new_object 12 Bone) []],
      gltf_animations = clips,
      gltf_materials = [0 \<mapsto> fox_material]\<rparr>"

text \<open>
  A scene with a mesh of standard material, and a line and a mesh that share a material of
  another class.
\<close>

definition sample_scene_app :: app where
  "sample_scene_app =
     sample_app
       \<lparr>scene := Object3D (new_object 0 Scene)
          [camera_node,
           Object3D ((new_object 11 SkinnedMesh)\<lparr>material := MaterialRef 0\<rparr>) [],
           Object3D ((new_object 13 Line)\<lparr>material := MaterialRef 1\<rparr>) [],
           Object3D ((new_object 14 Mesh)\<lparr>material := MaterialRef 1\<rparr>) []],
        materials := [0 \<mapsto> fox_material, 1 \<mapsto> line_material]\<rparr>"

section \<open>The traversal computes the pass\<close>

lemma callback_char:
  "material_callback env k child heap =
     (mark_shadows heap child, retexture env k (set_option (target_id heap child)) heap)"
  by (auto simp: material_callback_def mark_shadows_def retexture_def target_id_def is_target_def
      fun_eq_iff split: material_ref.splits option.splits)

lemma is_target_retexture [simp]: "is_target (retexture env k T heap) child = is_target heap child"
  by (auto simp: is_target_def retexture_def split: material_ref.splits option.splits)

lemma target_id_retexture [simp]: "target_id (retexture env k T heap) child = target_id heap child"
  by (simp add: target_id_def)

lemma mark_shadows_retexture [simp]: "mark_shadows (retexture env k T heap) = mark_shadows heap"
  by (simp add: mark_shadows_def fun_eq_iff)

lemma targets_retexture [simp]: "targets (retexture env k T heap) t = targets heap t"
  by (simp add: targets_def)

lemma retexture_retexture [simp]:
  "retexture env k B (retexture env k A heap) = retexture env k (A \<union> B) heap"
  by (auto simp: retexture_def fun_eq_iff option.map_comp comp_def split: option.splits)

lemma retexture_empty [simp]: "retexture env k {} heap = heap"
  by (simp add: retexture_def)

lemma traverse_children_char:
  assumes "\<And>c heap. c \<in> set cs \<Longrightarrow>
     traverse (material_callback env k) c heap =
       (map_graph_node (mark_shadows heap) c, retexture env k (targets heap c) heap)"
  shows "traverse_children (material_callback env k) cs heap =
       (map (map_graph_node (mark_shadows heap)) cs,
        retexture env k (\<Union>c \<in> set cs. targets heap c) heap)"
  using assms
proof (induction cs arbitrary: heap)
  case Nil
  then show ?case by simp
next
  case (Cons c cs)
  have "traverse (material_callback env k) c heap =
       (map_graph_node (mark_shadows heap) c, retexture env k (targets heap c) heap)"
    using Cons.prems by simp
  moreover have "traverse_children (material_callback env k) cs (retexture env k (targets heap c) heap) =
       (map (map_graph_node (mark_shadows heap)) cs,
        retexture env k (targets heap c \<union> (\<Union>c \<in> set cs. targets heap c)) heap)"
    using Cons.IH [of "retexture env k (targets heap c) heap"] Cons.prems by simp
  ultimately show ?case by simp
qed

lemma traverse_char:
  "traverse (material_callback env k) t heap =
     (map_graph_node (mark_shadows heap) t, retexture env k (targets heap t) heap)"
proof (induction t arbitrary: heap)
  case (Object3D f cs)
  have ch: "traverse_children (material_callback env k) cs h =
       (map (map_graph_node (mark_shadows h)) cs,
        retexture env k (\<Union>c \<in> set cs. targets h c) h)" for h
    by (rule traverse_children_char) (rule Object3D.IH)
  have un: "targets heap (Object3D f cs) =
      set_option (target_id heap f) \<union> (\<Union>c \<in> set cs. targets heap c)"
    by (auto simp: targets_def)
  have cb: "material_callback env k f heap =
      (mark_shadows heap f, retexture env k (set_option (target_id heap f)) heap)"
    by (rule callback_char)
  show ?case
    by (simp add: cb ch un)
qed

lemma is_target_mark_shadows [simp]: "is_target heap (mark_shadows h child) = is_target heap child"
  by (simp add: is_target_def mark_shadows_def)

lemma target_id_mark_shadows [simp]: "target_id heap (mark_shadows h child) = target_id heap child"
  by (simp add: target_id_def) (simp add: mark_shadows_def)

lemma mark_shadows_idem [simp]: "mark_shadows heap (mark_shadows heap child) = mark_shadows heap child"
  by (simp add: mark_shadows_def)

lemma targets_mark_shadows [simp]:
  "targets heap (map_graph_node (mark_shadows h) t) = targets heap t"
  by (simp add: targets_def graph_node.set_map)

lemma traverse_twice:
  "traverse (material_callback env k) t heap = (t1, heap1) \<Longrightarrow>
   traverse (material_callback env k) t1 heap1 = (t1, heap1)"
  by (auto simp: traverse_char graph_node.map_comp comp_def)

text \<open>
  C4. The Material Updater is idempotent: a second call right after a first, with the
  environment map and the intensity unchanged, leaves the scene graph, the materials and
  every other part of the state as the first call left them; only the journal of library
  calls records the second walk.
\<close>

theorem updateAllMaterials_idempotent:
  "updateAllMaterials (updateAllMaterials st) =
     (updateAllMaterials st)\<lparr>calls := calls (updateAllMaterials st) @ [SceneTraverse]\<rparr>"
proof -
  obtain t1 heap1 where tr:
    "traverse (material_callback environmentMap (dbg_envMapIntensity (debugObject st)))
       (scene st) (materials st) = (t1, heap1)"
    by (cases "traverse (material_callback environmentMap (dbg_envMapIntensity (debugObject st)))
       (scene st) (materials st)")
  have st1: "updateAllMaterials st =
      st\<lparr>scene := t1, materials := heap1, calls := calls st @ [SceneTraverse]\<rparr>"
    by (simp add: updateAllMaterials_def tr)
  show ?thesis
    by (simp add: st1) (simp add: updateAllMaterials_def traverse_twice [OF tr])
qed

section \<open>The Material Updater in closed form\<close>

lemma updateAllMaterials_char:
  "updateAllMaterials st =
     st\<lparr>scene := map_graph_node (mark_shadows (materials st)) (scene st),
        materials := retexture environmentMap (dbg_envMapIntensity (debugObject st))
                       (targets (materials st) (scene st)) (materials st),
        calls := calls st @ [SceneTraverse]\<rparr>"
  by (simp add: updateAllMaterials_def traverse_char)

lemma updateAllMaterials_keeps [simp]:
  "mixer (updateAllMaterials st) = mixer st"
  "renderer (updateAllMaterials st) = renderer st"
  "camera (updateAllMaterials st) = camera st"
  "sizes (updateAllMaterials st) = sizes st"
  "debugObject (updateAllMaterials st) = debugObject st"
  "calls (updateAllMaterials st) = calls st @ [SceneTraverse]"
  by (simp_all add: updateAllMaterials_char)

lemma mark_shadows_keeps [simp]:
  "oid (mark_shadows heap f) = oid f"
  "cls (mark_shadows heap f) = cls f"
  "position (mark_shadows heap f) = position f"
  "scale (mark_shadows heap f) = scale f"
  "material (mark_shadows heap f) = material f"
  "geometry (mark_shadows heap f) = geometry f"
  by (simp_all add: mark_shadows_def)

lemma in_target_id:
  "(target_id heap f = Some i) = (is_target heap f \<and> material f = MaterialRef i)"
  by (cases "material f") (auto simp: target_id_def is_target_def)

text \<open>
  C10. One call of the Material Updater changes, in the scene graph, only the two shadow
  flags, and only on nodes that are meshes holding one standard material; in the heap, only
  the environment map and its intensity, and only of the materials those nodes hold. The
  shape of the graph, every other node, every other field and every other part of the
  state stay as they were (the journal records the walk).
\<close>

theorem updateAllMaterials_frame:
  "scene (updateAllMaterials st) = map_graph_node (mark_shadows (materials st)) (scene st)
   \<and> (\<forall>f. is_target (materials st) f \<longrightarrow>
         mark_shadows (materials st) f = f\<lparr>castShadow := True, receiveShadow := True\<rparr>)
   \<and> (\<forall>f. \<not> is_target (materials st) f \<longrightarrow> mark_shadows (materials st) f = f)
   \<and> (\<forall>i. i \<in> targets (materials st) (scene st) \<longrightarrow>
         materials (updateAllMaterials st) i =
           map_option (\<lambda>m. m\<lparr>envMap := Some environmentMap,
                               envMapIntensity := dbg_envMapIntensity (debugObject st)\<rparr>)
             (materials st i))
   \<and> (\<forall>i. i \<notin> targets (materials st) (scene st) \<longrightarrow>
         materials (updateAllMaterials st) i = materials st i)
   \<and> (\<forall>i. (i \<in> targets (materials st) (scene st)) =
         (\<exists>f. f \<in> set_graph_node (scene st) \<and> is_target (materials st) f
              \<and> material f = MaterialRef i))
   \<and> (updateAllMaterials st)\<lparr>scene := scene st, materials := materials st, calls := calls st\<rparr> = st"
proof -
  have c6: "\<forall>i. (i \<in> targets (materials st) (scene st)) =
         (\<exists>f. f \<in> set_graph_node (scene st) \<and> is_target (materials st) f
              \<and> material f = MaterialRef i)"
    by (simp add: targets_def in_target_id Bex_def)
  have c1: "scene (updateAllMaterials st) = map_graph_node (mark_shadows (materials st)) (scene st)"
    by (simp add: updateAllMaterials_char)
  have c2: "\<forall>f. is_target (materials st) f \<longrightarrow>
         mark_shadows (materials st) f = f\<lparr>castShadow := True, receiveShadow := True\<rparr>"
    by (simp add: mark_shadows_def)
  have c3: "\<forall>f. \<not> is_target (materials st) f \<longrightarrow> mark_shadows (materials st) f = f"
    by (simp add: mark_shadows_def)
  have c4: "\<forall>i. i \<in> targets (materials st) (scene st) \<longrightarrow>
         materials (updateAllMaterials st) i =
           map_option (\<lambda>m. m\<lparr>envMap := Some environmentMap,
                               envMapIntensity := dbg_envMapIntensity (debugObject st)\<rparr>)
             (materials st i)"
    by (simp add: updateAllMaterials_char retexture_def)
  have c5: "\<forall>i. i \<notin> targets (materials st) (scene st) \<longrightarrow>
         materials (updateAllMaterials st) i = materials st i"
    by (simp add: updateAllMaterials_char retexture_def)
  have c7: "(updateAllMaterials st)\<lparr>scene := scene st, materials := materials st, calls := calls st\<rparr> = st"
    by (simp add: updateAllMaterials_char)
  from c1 c2 c3 c4 c5 c6 c7 show ?thesis
    by (intro conjI)
qed

theorem updateAllMaterials_frame_witness:
  "materials (updateAllMaterials sample_scene_app) 0 =
     Some (fox_material\<lparr>envMap := Some environmentMap, envMapIntensity := 2.5\<rparr>)
   \<and> materials (updateAllMaterials sample_scene_app) 1 = Some line_material
   \<and> scene (updateAllMaterials sample_scene_app) =
       Object3D (new_object 0 Scene)
          [camera_node,
           Object3D ((new_object 11 SkinnedMesh)
              \<lparr>material := MaterialRef 0, castShadow := True, receiveShadow := True\<rparr>) [],
           Object3D ((new_object 13 Line)\<lparr>material := MaterialRef 1\<rparr>) [],
           Object3D ((new_object 14 Mesh)\<lparr>material := MaterialRef 1\<rparr>) []]"
proof -
  have t: "targets (materials sample_scene_app) (scene sample_scene_app) = {0}"
    by (simp add: sample_scene_app_def targets_def target_id_def is_target_def new_object_def
        camera_node_def fox_material_def line_material_def)
  have k: "dbg_envMapIntensity (debugObject sample_scene_app) = 2.5"
    by (simp add: sample_scene_app_def sample_app_def startup_def Let_def)
  have m: "materials sample_scene_app 0 = Some fox_material"
    "materials sample_scene_app 1 = Some line_material"
    by (simp_all add: sample_scene_app_def)
  have s: "map_graph_node (mark_shadows (materials sample_scene_app)) (scene sample_scene_app) =
       Object3D (new_object 0 Scene)
          [camera_node,
           Object3D ((new_object 11 SkinnedMesh)
              \<lparr>material := MaterialRef 0, castShadow := True, receiveShadow := True\<rparr>) [],
           Object3D ((new_object 13 Line)\<lparr>material := MaterialRef 1\<rparr>) [],
           Object3D ((new_object 14 Mesh)\<lparr>material := MaterialRef 1\<rparr>) []]"
    by (simp add: sample_scene_app_def mark_shadows_def is_target_def new_object_def
        camera_node_def fox_material_def line_material_def)
  show ?thesis
    using updateAllMaterials_frame [of sample_scene_app] t k m s by simp
qed

section \<open>The Material Updater before the model exists\<close>

lemma targets_startup_scene:
  "targets heap (Object3D (new_object 0 Scene) [camera_node, directionalLight]) = {}"
  by (simp add: targets_def target_id_def is_target_def new_object_def camera_node_def
      directionalLight_def)

lemma mark_startup_nodes:
  "mark_shadows heap (new_object 0 Scene) = new_object 0 Scene"
  "map_graph_node (mark_shadows heap) camera_node = camera_node"
  "map_graph_node (mark_shadows heap) directionalLight = directionalLight"
  by (simp_all add: mark_shadows_def is_target_def new_object_def camera_node_def
      directionalLight_def)

text \<open>
  C8. While the scene graph is the one of startup, the scene with the camera and the
  directional light, a call of the Material Updater changes nothing in the state, whatever
  the heap and the debug parameters hold; the function has no failing branch. The journal
  alone records that the graph was walked. This is so in particular right after startup.
\<close>

theorem updateAllMaterials_before_model:
  "(scene st = Object3D (new_object 0 Scene) [camera_node, directionalLight] \<longrightarrow>
      updateAllMaterials st = st\<lparr>calls := calls st @ [SceneTraverse]\<rparr>)
   \<and> scene (startup w r0) = Object3D (new_object 0 Scene) [camera_node, directionalLight]
   \<and> updateAllMaterials (startup w r0) = (startup w r0)\<lparr>calls := [SceneTraverse]\<rparr>"
proof -
  have a: "updateAllMaterials st = st\<lparr>calls := calls st @ [SceneTraverse]\<rparr>"
    if "scene st = Object3D (new_object 0 Scene) [camera_node, directionalLight]" for st
    using that by (simp add: updateAllMaterials_char targets_startup_scene mark_startup_nodes)
  have b: "scene (startup w r0) = Object3D (new_object 0 Scene) [camera_node, directionalLight]"
    and c: "calls (startup w r0) = []"
    by (simp_all add: startup_def Let_def)
  show ?thesis using a [of st] a [OF b] b c by simp
qed

theorem updateAllMaterials_before_model_witness:
  "scene sample_app = Object3D (new_object 0 Scene) [camera_node, directionalLight]
   \<and> updateAllMaterials (set_envMapIntensity 4 sample_app) =
       (set_envMapIntensity 4 sample_app)\<lparr>calls := [SceneTraverse, SceneTraverse]\<rparr>"
proof -
  have b: "scene sample_app = Object3D (new_object 0 Scene) [camera_node, directionalLight]"
    and c: "calls sample_app = []"
    by (simp_all add: sample_app_def startup_def Let_def)
  have d: "scene (set_envMapIntensity 4 sample_app) =
      Object3D (new_object 0 Scene) [camera_node, directionalLight]"
    by (simp add: set_envMapIntensity_def envMapIntensity_onChange_def updateAllMaterials_char b
        mark_startup_nodes)
  have e: "calls (set_envMapIntensity 4 sample_app) = [SceneTraverse]"
    by (simp add: set_envMapIntensity_def envMapIntensity_onChange_def c)
  show ?thesis
    using updateAllMaterials_before_model [of "set_envMapIntensity 4 sample_app"] b d e by simp
qed

section \<open>Startup\<close>

lemma startup_renderer_tone:
  "toneMapping (renderer (startup w r0)) = toneMapping r0"
  "toneMappingExposure (renderer (startup w r0)) = toneMappingExposure r0"
  by (simp_all add: startup_def Let_def setPixelRatio_def setSize_def)

text \<open>
  C1. The claim is that at startup the renderer's tone mapping is the filmic operator and
  its exposure is 3. The script writes these two values to \<^verbatim>\<open>debugObject\<close> only; the
  renderer's own fields are assigned nowhere but in the panel's change handlers, so at
  startup the renderer still holds what its constructor gave it (\<open>startup_renderer_tone\<close>):
  with the library's defaults, no tone mapping and exposure 1.
\<close>

theorem startup_toneMapping_not_applied:
  "toneMapping (renderer (startup w (WebGLRenderer_new True cw ch))) = NoToneMapping
   \<and> toneMappingExposure (renderer (startup w (WebGLRenderer_new True cw ch))) = 1
   \<and> dbg_toneMapping (debugObject (startup w (WebGLRenderer_new True cw ch)))
       = ACESFilmicToneMapping
   \<and> dbg_toneMappingExposure (debugObject (startup w (WebGLRenderer_new True cw ch))) = 3"
  by (simp add: startup_renderer_tone) (simp add: startup_def WebGLRenderer_new_def Let_def)

section \<open>Model load\<close>

lemma placed_model_onLoad:
  "placed_model (onLoad g st) =
     map_graph_node (mark_shadows (materials st ++ gltf_materials g))
       (scale_set (set_position_y (gltf_scene g)
          (js_quot (js_neg (js_sub (box_max_y (Box3_setFromObject (gltf_scene g)))
                                   (box_min_y (Box3_setFromObject (gltf_scene g))))) 2))
          0.5 0.5 0.5)"
  unfolding onLoad_def Let_def placed_model_def updateAllMaterials_char
  by (cases "scene st") simp

lemma fields_placed:
  "node_fields (map_graph_node (mark_shadows heap) (scale_set (set_position_y t v) a b c)) =
     mark_shadows heap ((node_fields t)\<lparr>position := (position (node_fields t))\<lparr>vec_y := v\<rparr>,
        scale := \<lparr>vec_x = Num a, vec_y = Num b, vec_z = Num c\<rparr>\<rparr>)"
  by (cases t) simp

lemma Box3_map [simp]:
  "Box3_setFromObject (map_graph_node (mark_shadows heap) t) = Box3_setFromObject t"
  by (cases t) (simp add: world_y_def split: option.split)

text \<open>
  What the callback assigns, for every model: the vertical position is minus half the
  height of the box measured on the model as delivered, and the scale is one half.
\<close>

lemma onLoad_position_y:
  "vec_y (position (node_fields (placed_model (onLoad g st)))) =
     js_quot (js_neg (js_sub (box_max_y (Box3_setFromObject (gltf_scene g)))
                             (box_min_y (Box3_setFromObject (gltf_scene g))))) 2"
  "scale (node_fields (placed_model (onLoad g st))) =
     \<lparr>vec_x = Num 0.5, vec_y = Num 0.5, vec_z = Num 0.5\<rparr>"
  by (simp_all add: placed_model_onLoad fields_placed)

text \<open>A model without geometry has an empty box and is sent to infinity.\<close>

lemma onLoad_empty_box:
  assumes "geometry (node_fields (gltf_scene g)) = None"
  shows "vec_y (position (node_fields (placed_model (onLoad g st)))) = PosInfinity"
proof (cases "gltf_scene g")
  case (Object3D f cs)
  with assms show ?thesis
    by (simp add: onLoad_position_y Box3_empty_def js_sub_def)
qed

text \<open>
  Where the placement leaves a model that the loader delivers unscaled, with geometry from
  \<open>lo\<close> to \<open>hi\<close> in its own frame: the box has height \<open>hi - lo\<close> and the lowest point
  lands at \<open>lo / 2 - (hi - lo) / 2\<close>, which is 0 only when \<open>hi = 2 * lo\<close>. With the
  origin at the vertical centre (\<open>lo = - hi\<close>) that is three quarters of the height below
  the origin.
\<close>

lemma onLoad_lowest_point:
  assumes "vec_y (position (node_fields (gltf_scene g))) = Num p"
    and "vec_y (scale (node_fields (gltf_scene g))) = Num 1"
    and "geometry (node_fields (gltf_scene g)) = Some (lo, hi)"
    and "lo \<le> hi"
  shows "js_sub (box_max_y (Box3_setFromObject (gltf_scene g)))
                (box_min_y (Box3_setFromObject (gltf_scene g))) = Num (hi - lo)"
    and "box_min_y (Box3_setFromObject (placed_model (onLoad g st))) =
           Num (lo / 2 - (hi - lo) / 2)"
proof -
  obtain f cs where t: "gltf_scene g = Object3D f cs"
    by (cases "gltf_scene g")
  have f: "vec_y (position f) = Num p" "vec_y (scale f) = Num 1" "geometry f = Some (lo, hi)"
    using assms t by simp_all
  show h: "js_sub (box_max_y (Box3_setFromObject (gltf_scene g)))
                (box_min_y (Box3_setFromObject (gltf_scene g))) = Num (hi - lo)"
    using \<open>lo \<le> hi\<close>
    by (simp add: t f Box3_empty_def expandByPoint_def world_y_def js_sub_def)
  have "placed_model (onLoad g st) =
      map_graph_node (mark_shadows (materials st ++ gltf_materials g))
        (scale_set (set_position_y (gltf_scene g) (js_quot (js_neg (Num (hi - lo))) 2))
           0.5 0.5 0.5)"
    using placed_model_onLoad [of g st] by (simp only: h)
  then show "box_min_y (Box3_setFromObject (placed_model (onLoad g st))) =
           Num (lo / 2 - (hi - lo) / 2)"
    using \<open>lo \<le> hi\<close>
    by (simp add: t f Box3_empty_def expandByPoint_def world_y_def js_div_def)
      (simp add: field_simps)
qed

text \<open>
  C2. The claim is that the placement grounds the model: with the local origin at the
  vertical centre, the lowest point is at 0 after the callback. The callback measures the
  box and sets \<^verbatim>\<open>position.y\<close> to \<open>-H/2\<close> and the scale to one half, as its comments
  say, to stand the model on the ground; it does not get there. The sample model has its
  origin at its vertical centre and a box of height 2: after the callback its
  \<^verbatim>\<open>position.y\<close> is \<open>-1\<close> and its lowest point is at \<open>-3/2\<close>, below the origin.
\<close>

theorem onLoad_bottom_not_grounded:
  "geometry (node_fields (gltf_scene (fox_model []))) = Some (- 1, 1)
   \<and> js_sub (box_max_y (Box3_setFromObject (gltf_scene (fox_model []))))
             (box_min_y (Box3_setFromObject (gltf_scene (fox_model [])))) = Num 2
   \<and> vec_y (position (node_fields (placed_model (onLoad (fox_model []) sample_app)))) = Num (- 1)
   \<and> vec_y (scale (node_fields (placed_model (onLoad (fox_model []) sample_app)))) = Num 0.5
   \<and> box_min_y (Box3_setFromObject (placed_model (onLoad (fox_model []) sample_app)))
       = Num (- 3 / 2)
   \<and> box_min_y (Box3_setFromObject (placed_model (onLoad (fox_model []) sample_app))) \<noteq> Num 0"
  by (simp add: placed_model_onLoad fox_model_def new_object_def world_y_def Box3_empty_def
      expandByPoint_def js_sub_def js_div_def)

lemma foldl_clipAction_play:
  "foldl clipAction_play m cs = m\<lparr>mixer_actions := mixer_actions m @ cs\<rparr>"
  by (induction cs arbitrary: m) (simp_all add: clipAction_play_def)

lemma oid_placed: "oid (node_fields (scale_set (set_position_y t v) a b c)) = oid (node_fields t)"
  by (cases t) simp

text \<open>
  C3, as stated, fails: the sample model carries no animation clip, and after the callback
  a mixer is present.
\<close>

theorem mixer_without_clips_counterexample:
  "gltf_animations (fox_model []) = []
   \<and> mixer (onLoad (fox_model []) sample_app)
       = Some \<lparr>mixer_root = 10, mixer_actions = [], mixer_time = 0\<rparr>"
  by (simp add: onLoad_def Let_def AnimationMixer_new_def oid_placed fox_model_def new_object_def)

text \<open>
  C3, amended. No mixer exists at startup, and a failed load creates none. After the load
  callback a mixer is present whether or not the model carried animation clips: it is bound
  to the loaded model, the one now in the scene, and it plays one action for each clip of
  the model, in order.
\<close>

theorem onLoad_mixer:
  "mixer (startup w r0) = None
   \<and> mixer (loader_settle model_request LoadFailed st) = mixer st
   \<and> mixer (onLoad g st) =
       Some \<lparr>mixer_root = oid (node_fields (gltf_scene g)),
             mixer_actions = gltf_animations g, mixer_time = 0\<rparr>
   \<and> oid (node_fields (placed_model (onLoad g st))) = oid (node_fields (gltf_scene g))"
proof -
  have "mixer (onLoad g st) =
       Some \<lparr>mixer_root = oid (node_fields (gltf_scene g)),
             mixer_actions = gltf_animations g, mixer_time = 0\<rparr>"
    by (simp add: onLoad_def Let_def foldl_clipAction_play AnimationMixer_new_def oid_placed)
  moreover have "oid (node_fields (placed_model (onLoad g st))) = oid (node_fields (gltf_scene g))"
    by (simp add: placed_model_onLoad fields_placed)
  moreover have "mixer (startup w r0) = None"
    by (simp add: startup_def Let_def)
  moreover have "mixer (loader_settle model_request LoadFailed st) = mixer st"
    by (simp add: loader_settle_def model_request_def)
  ultimately show ?thesis by simp
qed

text \<open>
  C9. The script's request registers a success callback and neither a progress nor an error
  callback. When the load fails nothing of the program runs and the state is the one before:
  scene graph, heap, mixer and all the rest. A successful load runs the success callback.
\<close>

theorem load_failure_changes_nothing:
  "req_onError model_request = None
   \<and> req_onProgress model_request = None
   \<and> loader_settle model_request LoadFailed st = st
   \<and> loader_settle model_request (Loaded g) st = onLoad g st"
  by (simp add: loader_settle_def model_request_def)

section \<open>Debug panel\<close>

lemma toneMapping_options_complete: "\<exists>label. map_of toneMapping_options label = Some v"
proof (cases v)
  case NoToneMapping
  then have "map_of toneMapping_options ''No Tone Mapping'' = Some v"
    by (simp add: toneMapping_options_def)
  then show ?thesis ..
next
  case LinearToneMapping
  then have "map_of toneMapping_options ''Linear Tone Mapping'' = Some v"
    by (simp add: toneMapping_options_def)
  then show ?thesis ..
next
  case ReinhardToneMapping
  then have "map_of toneMapping_options ''Reinhard Tone Mapping'' = Some v"
    by (simp add: toneMapping_options_def)
  then show ?thesis ..
next
  case CineonToneMapping
  then have "map_of toneMapping_options ''Cineon Tone Mapping'' = Some v"
    by (simp add: toneMapping_options_def)
  then show ?thesis ..
next
  case ACESFilmicToneMapping
  then have "map_of toneMapping_options ''ACES Filmic Tone Mapping'' = Some v"
    by (simp add: toneMapping_options_def)
  then show ?thesis ..
qed

text \<open>
  C5. Each of the five operators is an entry of the dropdown. Selecting an entry sets the
  renderer's tone mapping (and the debug parameter) to the entry's value and walks the
  scene graph exactly once: the selection is one call of the Material Updater on the state
  with the two fields set.
\<close>

theorem select_toneMapping_sets_renderer:
  "(\<exists>l. map_of toneMapping_options l = Some v)
   \<and> (map_of toneMapping_options label = Some v \<longrightarrow>
       toneMapping (renderer (select_toneMapping label st)) = v
       \<and> dbg_toneMapping (debugObject (select_toneMapping label st)) = v
       \<and> calls (select_toneMapping label st) = calls st @ [SceneTraverse]
       \<and> select_toneMapping label st =
           updateAllMaterials
             (st\<lparr>debugObject := (debugObject st)\<lparr>dbg_toneMapping := v\<rparr>,
                 renderer := (renderer st)\<lparr>toneMapping := v\<rparr>\<rparr>))"
  by (simp add: toneMapping_options_complete select_toneMapping_def toneMapping_onChange_def)

theorem select_toneMapping_sets_renderer_witness:
  "map_of toneMapping_options ''Reinhard Tone Mapping'' = Some ReinhardToneMapping
   \<and> toneMapping (renderer (select_toneMapping ''Reinhard Tone Mapping'' sample_app))
       = ReinhardToneMapping
   \<and> calls (select_toneMapping ''Reinhard Tone Mapping'' sample_app) = [SceneTraverse]"
proof -
  have h: "map_of toneMapping_options ''Reinhard Tone Mapping'' = Some ReinhardToneMapping"
    by (simp add: toneMapping_options_def)
  have c: "calls sample_app = []"
    by (simp add: sample_app_def startup_def Let_def)
  show ?thesis
    using select_toneMapping_sets_renderer
      [of ReinhardToneMapping "''Reinhard Tone Mapping''" sample_app] h c
    by simp
qed

section \<open>Resize\<close>






section \<open>Animate\<close>

lemma tick_no_mixer:
  "mixer st = None \<Longrightarrow>
     tick delta st = Inr (st\<lparr>calls := calls st @ [ControlsUpdate, Render, RequestAnimationFrame]\<rparr>)"
  by (simp add: tick_def truthy_def)

lemma run_frames_no_mixer:
  "mixer st = None \<Longrightarrow>
     run_frames ds st =
       Inr (st\<lparr>calls := calls st
              @ concat (map (\<lambda>d. [ControlsUpdate, Render, RequestAnimationFrame]) ds)\<rparr>)"
proof (induction ds arbitrary: st)
  case Nil
  then show ?case by simp
next
  case (Cons d ds)
  let ?st1 = "st\<lparr>calls := calls st @ [ControlsUpdate, Render, RequestAnimationFrame]\<rparr>"
  have "mixer ?st1 = None" using Cons.prems by simp
  from Cons.IH [OF this] show ?case
    by (simp add: tick_no_mixer [OF Cons.prems])
qed

text \<open>
  C7. While no mixer exists, a run of the frame loop's body ends without error, does not
  advance any mixer, updates the controls, renders a frame and requests the next one; so
  does every further run, for as many frames as the host grants. The script's own first
  call of the body, at startup, is such a run.
\<close>

theorem tick_without_mixer:
  "(mixer st = None \<longrightarrow>
      tick delta st = Inr (st\<lparr>calls := calls st @ [ControlsUpdate, Render, RequestAnimationFrame]\<rparr>)
      \<and> run_frames ds st =
          Inr (st\<lparr>calls := calls st
                 @ concat (map (\<lambda>d. [ControlsUpdate, Render, RequestAnimationFrame]) ds)\<rparr>))
   \<and> main w r0 delta =
       Inr ((startup w r0)\<lparr>calls := [ControlsUpdate, Render, RequestAnimationFrame]\<rparr>)"
proof -
  have "mixer (startup w r0) = None" and "calls (startup w r0) = []"
    by (simp_all add: startup_def Let_def)
  then have "main w r0 delta =
       Inr ((startup w r0)\<lparr>calls := [ControlsUpdate, Render, RequestAnimationFrame]\<rparr>)"
    by (simp add: main_def tick_no_mixer)
  then show ?thesis
    by (simp add: tick_no_mixer run_frames_no_mixer)
qed

theorem tick_without_mixer_witness:
  "mixer sample_app = None
   \<and> tick (1 / 60) sample_app =
       Inr (sample_app\<lparr>calls := [ControlsUpdate, Render, RequestAnimationFrame]\<rparr>)
   \<and> run_frames [1 / 60, 1 / 30] sample_app =
       Inr (sample_app\<lparr>calls := [ControlsUpdate, Render, RequestAnimationFrame,
                                  ControlsUpdate, Render, RequestAnimationFrame]\<rparr>)"
proof -
  have m: "mixer sample_app = None" and c: "calls sample_app = []"
    by (simp_all add: sample_app_def startup_def Let_def)
  show ?thesis
    using tick_without_mixer [of sample_app "1 / 60" "[1 / 60, 1 / 30]"] m c
    by (simp del: run_frames.simps)
qed

end
